theory Spec2Isabelle
  imports Complex_Main
begin

section \<open>Python numbers\<close>

text \<open>
  The attributes of the pen are Python numbers: the integer \<open>0\<close> that \<open>__zero\<close> stores, and
  floats everywhere else (\<open>/\<close> is true division and always yields a float). A value is
  modelled as a real number or the float \<open>NaN\<close>. Arithmetic on real numbers is exact:
  rounding, overflow, infinities and the sign of a zero are outside this model, and the
  literal \<open>1e-3\<close> is the real number \<open>1 / 1000\<close>. What the model keeps is the behaviour of
  \<open>NaN\<close> (every operation propagates it, every ordering comparison with it is false,
  \<open>==\<close> is false and \<open>!=\<close> is true) and the \<open>ZeroDivisionError\<close> of \<open>/\<close>.
\<close>

datatype pyfloat = Fin real | NaN

datatype error = ZeroDivisionError | OtherError

text \<open>\<open>bool(x)\<close>, as used by \<open>not area\<close>: a number is false exactly when it equals zero;
  \<open>NaN\<close> is true.\<close>

fun truthy :: "pyfloat \<Rightarrow> bool" where
  "truthy (Fin x) = (x \<noteq> 0)"
| "truthy NaN = True"

text \<open>The comparisons \<open>==\<close>, \<open>!=\<close>, \<open>>\<close>, \<open>>=\<close>, \<open><\<close> and \<open><=\<close>.\<close>

fun feq :: "pyfloat \<Rightarrow> pyfloat \<Rightarrow> bool" where
  "feq (Fin x) (Fin y) = (x = y)"
| "feq _ _ = False"

definition fne :: "pyfloat \<Rightarrow> pyfloat \<Rightarrow> bool" where
  "fne a b = (\<not> feq a b)"

fun fgt :: "pyfloat \<Rightarrow> pyfloat \<Rightarrow> bool" where
  "fgt (Fin x) (Fin y) = (x > y)"
| "fgt _ _ = False"


fun flt :: "pyfloat \<Rightarrow> pyfloat \<Rightarrow> bool" where
  "flt (Fin x) (Fin y) = (x < y)"
| "flt _ _ = False"


text \<open>\<open>abs(x)\<close>, \<open>x - y\<close>, \<open>x * y\<close> and \<open>x ** 2\<close>.\<close>

fun fabs :: "pyfloat \<Rightarrow> pyfloat" where
  "fabs (Fin x) = Fin \<bar>x\<bar>"
| "fabs NaN = NaN"

fun fsub :: "pyfloat \<Rightarrow> pyfloat \<Rightarrow> pyfloat" where
  "fsub (Fin x) (Fin y) = Fin (x - y)"
| "fsub _ _ = NaN"

fun fmul :: "pyfloat \<Rightarrow> pyfloat \<Rightarrow> pyfloat" where
  "fmul (Fin x) (Fin y) = Fin (x * y)"
| "fmul _ _ = NaN"

fun fpow2 :: "pyfloat \<Rightarrow> pyfloat" where
  "fpow2 (Fin x) = Fin (x ^ 2)"
| "fpow2 NaN = NaN"

text \<open>\<open>x ** 0.5\<close> for \<open>x\<close> that is not negative; the source applies it to \<open>abs(...)\<close> only.
  (On a negative float Python returns a complex number, which \<open>pyfloat\<close> does not have.)\<close>

fun pow_half :: "pyfloat \<Rightarrow> pyfloat" where
  "pow_half (Fin x) = Fin (sqrt x)"
| "pow_half NaN = NaN"

text \<open>\<open>math.copysign(m, s)\<close>: the magnitude of \<open>m\<close> with the sign of \<open>s\<close>. A zero \<open>s\<close> and a
  \<open>NaN\<close> \<open>s\<close> count as positive (the sign bit is not modelled); a \<open>NaN\<close> magnitude stays
  \<open>NaN\<close>.\<close>

fun copysign :: "pyfloat \<Rightarrow> pyfloat \<Rightarrow> pyfloat" where
  "copysign (Fin m) (Fin s) = Fin (if s < 0 then - \<bar>m\<bar> else \<bar>m\<bar>)"
| "copysign (Fin m) NaN = Fin \<bar>m\<bar>"
| "copysign NaN _ = NaN"

text \<open>\<open>x / y\<close>: Python raises \<open>ZeroDivisionError\<close> when the divisor equals zero, whatever
  the dividend (also for \<open>NaN\<close>); a \<open>NaN\<close> divisor gives \<open>NaN\<close>.\<close>

fun truediv :: "pyfloat \<Rightarrow> pyfloat \<Rightarrow> error + pyfloat" where
  "truediv (Fin x) (Fin y) = (if y = 0 then Inl ZeroDivisionError else Inr (Fin (x / y)))"
| "truediv NaN (Fin y) = (if y = 0 then Inl ZeroDivisionError else Inr NaN)"
| "truediv _ NaN = Inr NaN"

text \<open>Sequencing of statements that may raise: the first exception ends the run.\<close>

definition bind_res :: "error + 'a \<Rightarrow> ('a \<Rightarrow> error + 'b) \<Rightarrow> error + 'b" where
  "bind_res r f = (case r of Inl e \<Rightarrow> Inl e | Inr v \<Rightarrow> f v)"

section \<open>The pen\<close>

text \<open>
  A \<open>StatisticsPen\<close> object: the six totals it inherits from \<open>MomentsPen\<close> and the nine
  derived statistics it owns. Whatever else the base classes keep (the current point,
  the start of the subpath, the glyph set) is the extension \<open>more\<close> of the record.
\<close>

record pen =
  area :: pyfloat
  momentX :: pyfloat
  momentY :: pyfloat
  momentXX :: pyfloat
  momentYY :: pyfloat
  momentXY :: pyfloat
  meanX :: pyfloat
  meanY :: pyfloat
  varianceX :: pyfloat
  varianceY :: pyfloat
  stddevX :: pyfloat
  stddevY :: pyfloat
  covariance :: pyfloat
  correlation :: pyfloat
  slant :: pyfloat

text \<open>\<open>StatisticsPen.__zero\<close>\<close>

definition StatisticsPen_zero :: "'a pen_scheme \<Rightarrow> 'a pen_scheme" where
  "StatisticsPen_zero self =
     self\<lparr>meanX := Fin 0, meanY := Fin 0,
          varianceX := Fin 0, varianceY := Fin 0,
          stddevX := Fin 0, stddevY := Fin 0,
          covariance := Fin 0, correlation := Fin 0, slant := Fin 0\<rparr>"

text \<open>The snapping of lines 68 and 71: \<open>v if abs(v) > 1e-3 else 0\<close>.\<close>

definition snap :: "pyfloat \<Rightarrow> pyfloat" where
  "snap v = (if fgt (fabs v) (Fin (1 / 1000)) then v else Fin 0)"

text \<open>
  The local variable \<open>correlation\<close> of lines 64 to 67 and the local variable \<open>slant\<close> of
  line 70, before they are snapped and stored. The division operator is the parameter
  \<open>dv\<close> (see \<open>update_with\<close>).
\<close>

definition correlation_presnap ::
  "(pyfloat \<Rightarrow> pyfloat \<Rightarrow> error + pyfloat) \<Rightarrow> pyfloat \<Rightarrow> pyfloat \<Rightarrow> pyfloat \<Rightarrow> error + pyfloat" where
  "correlation_presnap dv cov sX sY =
     (if feq (fmul sX sY) (Fin 0) then Inr NaN else dv cov (fmul sX sY))"

definition slant_presnap ::
  "(pyfloat \<Rightarrow> pyfloat \<Rightarrow> error + pyfloat) \<Rightarrow> pyfloat \<Rightarrow> pyfloat \<Rightarrow> error + pyfloat" where
  "slant_presnap dv cov vY = (if fne vY (Fin 0) then dv cov vY else Inr NaN)"

text \<open>
  \<open>StatisticsPen.__update\<close>, statement by statement. The operator \<open>/\<close> is the parameter
  \<open>dv\<close>, so that the divisions a run performs can be observed; the method itself is
  \<open>StatisticsPen_update\<close>, with Python's division.
\<close>

definition update_with ::
  "(pyfloat \<Rightarrow> pyfloat \<Rightarrow> error + pyfloat) \<Rightarrow> 'a pen_scheme \<Rightarrow> error + 'a pen_scheme" where
  "update_with dv self =
     (if \<not> truthy (area self) then Inr (StatisticsPen_zero self)
      else
        bind_res (dv (momentX self) (area self)) (\<lambda>mX.
        bind_res (dv (momentY self) (area self)) (\<lambda>mY.
        bind_res (dv (momentXX self) (area self)) (\<lambda>qXX.
        let vX = fsub qXX (fpow2 mX) in
        bind_res (dv (momentYY self) (area self)) (\<lambda>qYY.
        let vY = fsub qYY (fpow2 mY);
            sX = copysign (pow_half (fabs vX)) vX;
            sY = copysign (pow_half (fabs vY)) vY in
        bind_res (dv (momentXY self) (area self)) (\<lambda>qXY.
        let cov = fsub qXY (fmul mX mY) in
        bind_res (correlation_presnap dv cov sX sY) (\<lambda>corr.
        bind_res (slant_presnap dv cov vY) (\<lambda>sl.
        Inr (self\<lparr>meanX := mX, meanY := mY,
                  varianceX := vX, varianceY := vY,
                  stddevX := sX, stddevY := sY,
                  covariance := cov,
                  correlation := snap corr, slant := snap sl\<rparr>)))))))))"

definition StatisticsPen_update :: "'a pen_scheme \<Rightarrow> error + 'a pen_scheme" where
  "StatisticsPen_update self = update_with truediv self"

text \<open>
  \<open>StatisticsPen._closePath\<close>: the close handling of the accumulator first, then the
  recomputation. \<open>MomentsPen._closePath\<close> is not part of the source file; it is the
  parameter \<open>MomentsPen_closePath\<close>, any function on the pen that returns it updated or
  raises.
\<close>

definition StatisticsPen_closePath ::
  "('a pen_scheme \<Rightarrow> error + 'a pen_scheme) \<Rightarrow> 'a pen_scheme \<Rightarrow> error + 'a pen_scheme" where
  "StatisticsPen_closePath MomentsPen_closePath self =
     bind_res (MomentsPen_closePath self) StatisticsPen_update"


definition stats_of :: "'a pen_scheme \<Rightarrow> pyfloat list" where
  "stats_of p = [meanX p, meanY p, varianceX p, varianceY p, stddevX p, stddevY p,
                 covariance p, correlation p, slant p]"

section \<open>Concrete pens\<close>


text \<open>Totals with a spread in \<open>x\<close> and none in \<open>y\<close>, and the pen after \<open>__update\<close>.\<close>

definition sliver_pen :: pen where
  "sliver_pen =
     \<lparr>area = Fin 1, momentX = Fin 0, momentY = Fin 0,
      momentXX = Fin 1, momentYY = Fin 0, momentXY = Fin 0,
      meanX = Fin 0, meanY = Fin 0, varianceX = Fin 0, varianceY = Fin 0,
      stddevX = Fin 0, stddevY = Fin 0, covariance = Fin 0, correlation = Fin 0, slant = Fin 0\<rparr>"

definition sliver_result :: pen where
  "sliver_result =
     \<lparr>area = Fin 1, momentX = Fin 0, momentY = Fin 0,
      momentXX = Fin 1, momentYY = Fin 0, momentXY = Fin 0,
      meanX = Fin 0, meanY = Fin 0, varianceX = Fin 1, varianceY = Fin 0,
      stddevX = Fin 1, stddevY = Fin 0, covariance = Fin 0, correlation = Fin 0, slant = Fin 0\<rparr>"



text \<open>A pen that holds statistics of an earlier close and whose area is back to zero.\<close>

definition stale_pen :: pen where
  "stale_pen =
     \<lparr>area = Fin 0, momentX = Fin 0, momentY = Fin 0,
      momentXX = Fin 1, momentYY = Fin 0, momentXY = Fin 0,
      meanX = Fin 0, meanY = Fin 0, varianceX = Fin 1, varianceY = Fin 0,
      stddevX = Fin 1, stddevY = Fin 0, covariance = Fin 0, correlation = Fin 0, slant = Fin 0\<rparr>"





section \<open>The recomputation, step by step\<close>

lemmas eval_defs = StatisticsPen_update_def update_with_def bind_res_def correlation_presnap_def
    slant_presnap_def snap_def fne_def StatisticsPen_zero_def Let_def







lemma update_zero: "area self = Fin 0 \<Longrightarrow> update_with dv self = Inr (StatisticsPen_zero self)"
  by (simp add: update_with_def)















section \<open>The claims\<close>

text \<open>
  C1 (NaN is surfaced when only \<open>varianceY\<close> is zero). The code does not do this. On
  the totals \<open>area = 1\<close>, \<open>momentXX = 1\<close> and zero elsewhere, \<open>varianceX\<close> is \<open>1\<close> and
  \<open>varianceY\<close> is \<open>0\<close>; the local values \<open>correlation\<close> and \<open>slant\<close> are both \<open>NaN\<close>, and
  the snapping comparison \<open>abs(NaN) > 1e-3\<close>, being false, stores \<open>0\<close> for both. The same
  holds for a close whose accumulator handling leaves these totals.
\<close>

theorem sliver_stores_zero_for_NaN:
  "StatisticsPen_update sliver_pen = Inr sliver_result
   \<and> StatisticsPen_closePath Inr sliver_pen = Inr sliver_result
   \<and> truthy (area sliver_result)
   \<and> fne (varianceX sliver_result) (Fin 0)
   \<and> feq (varianceY sliver_result) (Fin 0)
   \<and> correlation_presnap truediv (covariance sliver_result) (stddevX sliver_result)
        (stddevY sliver_result) = Inr NaN
   \<and> slant_presnap truediv (covariance sliver_result) (varianceY sliver_result) = Inr NaN
   \<and> correlation sliver_result = Fin 0 \<and> slant sliver_result = Fin 0
   \<and> correlation sliver_result \<noteq> NaN \<and> slant sliver_result \<noteq> NaN"
  by (simp add: eval_defs StatisticsPen_closePath_def sliver_pen_def sliver_result_def)

text \<open>
  C2: when the accumulated area is exactly zero, the recomputation succeeds and all nine
  derived statistics are exactly \<open>0\<close>, whatever they were before; the result is the same
  for every division operator, so no division is performed.
\<close>

theorem zero_area_resets_statistics:
  assumes "area self = Fin 0"
  shows "\<exists>s'. StatisticsPen_update self = Inr s'
     \<and> meanX s' = Fin 0 \<and> meanY s' = Fin 0
     \<and> varianceX s' = Fin 0 \<and> varianceY s' = Fin 0
     \<and> stddevX s' = Fin 0 \<and> stddevY s' = Fin 0
     \<and> covariance s' = Fin 0 \<and> correlation s' = Fin 0 \<and> slant s' = Fin 0
     \<and> (\<forall>dv. update_with dv self = Inr s')"
  using assms
  by (simp add: StatisticsPen_update_def update_zero StatisticsPen_zero_def)

theorem zero_area_resets_statistics_witness:
  "area stale_pen = Fin 0
   \<and> varianceX stale_pen = Fin 1 \<and> stddevX stale_pen = Fin 1
   \<and> (\<exists>s'. StatisticsPen_update stale_pen = Inr s'
        \<and> stats_of s' = [Fin 0, Fin 0, Fin 0, Fin 0, Fin 0, Fin 0, Fin 0, Fin 0, Fin 0]
        \<and> update_with (\<lambda>a b. Inl ZeroDivisionError) stale_pen = Inr s')"
proof -
  have h: "area stale_pen = Fin 0"
    by (simp add: stale_pen_def)
  from zero_area_resets_statistics [OF h] obtain s' where
    "StatisticsPen_update stale_pen = Inr s'"
    "meanX s' = Fin 0" "meanY s' = Fin 0" "varianceX s' = Fin 0" "varianceY s' = Fin 0"
    "stddevX s' = Fin 0" "stddevY s' = Fin 0" "covariance s' = Fin 0"
    "correlation s' = Fin 0" "slant s' = Fin 0"
    "\<forall>dv. update_with dv stale_pen = Inr s'"
    by blast
  then show ?thesis
    by (simp add: stats_of_def stale_pen_def)
qed


















end
